theory Spec2Isabelle
  imports Main
begin

section \<open>Python values seen by \<open>fiftyone/core/odm/dataset.py\<close>\<close>

text \<open>
  The module raises nothing of its own; the only exception its code can meet is the
  \<open>AttributeError\<close> of an attribute access (\<open>field.field\<close>,
  \<open>field.document_type\<close>, or the \<open>__module__\<close> lookup inside
  \<open>etau.get_class_name\<close>).
\<close>

datatype error = AttributeError

text \<open>
  The value of an attribute of a field: \<open>None\<close>, or an object. Of an object the
  module observes two things only: the string \<open>etau.get_class_name\<close> returns for
  it (its fully-qualified class name) and its truth value (\<open>bool(obj)\<close>).
\<close>

datatype pyobj = PyNone | PyObj string bool

fun truthy :: "pyobj \<Rightarrow> bool" where
  "truthy PyNone = False"
| "truthy (PyObj c t) = t"

text \<open>
  Modelled from the spec: \<open>etau.get_class_name\<close>, a helper of the ETA library that
  is not in the sources at hand. It gives the fully-qualified name of the class of its
  argument (\<open>cls_or_obj.__module__ + "." + cls.__name__\<close>). \<open>None\<close> has no
  \<open>__module__\<close>, so the call raises there; \<open>_get_attr_repr\<close> never makes that
  call, and the statements about \<open>matches_field\<close> below that promise a result ask
  for an object.
\<close>

fun get_class_name :: "pyobj \<Rightarrow> error + string" where
  "get_class_name PyNone = Inl AttributeError"
| "get_class_name (PyObj c t) = Inr c"

text \<open>
  Truth value of a nullable string (\<open>if self.subfield\<close>): \<open>None\<close> and
  the empty string are falsy.
\<close>

fun str_truthy :: "string option \<Rightarrow> bool" where
  "str_truthy None = False"
| "str_truthy (Some s) = (s \<noteq> [])"

text \<open>Sequencing of computations that may raise: the first exception wins.\<close>

fun bind_result :: "error + 'a \<Rightarrow> ('a \<Rightarrow> error + 'b) \<Rightarrow> error + 'b" where
  "bind_result (Inl e) k = Inl e"
| "bind_result (Inr x) k = k x"

section \<open>Field descriptors\<close>

text \<open>
  A \<open>fiftyone.core.fields.Field\<close> instance: its \<open>name\<close>, the
  fully-qualified name of its class (what \<open>etau.get_class_name(field)\<close> returns; a
  field is an instance of a Python class, so the call succeeds), and its further
  attributes by name. An attribute that is not in \<open>field_attrs\<close> does not exist
  on the object.
\<close>

record field_descriptor =
  field_name :: string
  class_name :: string
  field_attrs :: "string \<Rightarrow> pyobj option"

text \<open>\<open>getattr(field, attr_name, default)\<close>\<close>

definition getattr_default :: "field_descriptor \<Rightarrow> string \<Rightarrow> pyobj \<Rightarrow> pyobj" where
  "getattr_default field attr_name dflt =
     (case field_attrs field attr_name of None \<Rightarrow> dflt | Some v \<Rightarrow> v)"

text \<open>\<open>field.attr_name\<close>\<close>

definition getattr :: "field_descriptor \<Rightarrow> string \<Rightarrow> error + pyobj" where
  "getattr field attr_name =
     (case field_attrs field attr_name of None \<Rightarrow> Inl AttributeError | Some v \<Rightarrow> Inr v)"

section \<open>SampleFieldDocument\<close>

record sample_field_document =
  name :: string
  ftype :: string
  subfield :: "string option"
  embedded_doc_type :: "string option"

text \<open>
  \<^verbatim>\<open>
  def _get_attr_repr(field, attr_name):
      attr = getattr(field, attr_name, None)
      return etau.get_class_name(attr) if attr else None
  \<close>
  (\<open>get_attr_repr\<close> here: an identifier cannot start with an underscore.)
\<close>

definition get_attr_repr :: "field_descriptor \<Rightarrow> string \<Rightarrow> error + string option" where
  "get_attr_repr field attr_name =
     (let attr = getattr_default field attr_name PyNone
      in if truthy attr then bind_result (get_class_name attr) (\<lambda>c. Inr (Some c))
         else Inr None)"

text \<open>
  \<^verbatim>\<open>
  def from_field(cls, field):
      return cls(
          name=field.name,
          ftype=etau.get_class_name(field),
          subfield=cls._get_attr_repr(field, "field"),
          embedded_doc_type=cls._get_attr_repr(field, "document_type"),
      )
  \<close>
\<close>

definition from_field :: "field_descriptor \<Rightarrow> error + sample_field_document" where
  "from_field field =
     bind_result (get_attr_repr field ''field'') (\<lambda>sf.
     bind_result (get_attr_repr field ''document_type'') (\<lambda>dt.
       Inr \<lparr>name = field_name field, ftype = class_name field,
            subfield = sf, embedded_doc_type = dt\<rparr>))"

text \<open>
  The two guarded conditions of \<open>matches_field\<close>,
  \<open>self.subfield and self.subfield != etau.get_class_name(field.field)\<close> and its
  twin for \<open>embedded_doc_type\<close>: \<open>and\<close> evaluates its right operand only when
  the left one is truthy; the right operand reads the attribute and takes its class
  name, and either step may raise.
\<close>

definition set_and_differs :: "string option \<Rightarrow> field_descriptor \<Rightarrow> string \<Rightarrow> error + bool" where
  "set_and_differs stored field attr_name =
     (if str_truthy stored
      then bind_result (getattr field attr_name) (\<lambda>v.
           bind_result (get_class_name v) (\<lambda>c. Inr (stored \<noteq> Some c)))
      else Inr False)"

text \<open>
  \<^verbatim>\<open>
  def matches_field(self, field):
      if self.name != field.name:
          return False
      if self.ftype != etau.get_class_name(field):
          return False
      if self.subfield and self.subfield != etau.get_class_name(field.field):
          return False
      if (
          self.embedded_doc_type
          and self.embedded_doc_type
          != etau.get_class_name(field.document_type)
      ):
          return False
      return True
  \<close>
\<close>

definition matches_field :: "sample_field_document \<Rightarrow> field_descriptor \<Rightarrow> error + bool" where
  "matches_field self field =
     (if name self \<noteq> field_name field then Inr False
      else if ftype self \<noteq> class_name field then Inr False
      else bind_result (set_and_differs (subfield self) field ''field'') (\<lambda>d1.
           if d1 then Inr False
           else bind_result (set_and_differs (embedded_doc_type self) field ''document_type'') (\<lambda>d2.
                if d2 then Inr False else Inr True)))"

text \<open>
  \<^verbatim>\<open>
  def list_from_field_schema(cls, d):
      return [
          cls.from_field(field) for field in d.values() if field.name != "id"
      ]
  \<close>
  The dict \<open>d\<close> is its items in insertion order; \<open>d.values()\<close> iterates in that
  order. The comprehension stops at the first call that raises.
\<close>

type_synonym field_schema = "(string \<times> field_descriptor) list"

definition values_of :: "field_schema \<Rightarrow> field_descriptor list" where
  "values_of d = map snd d"

fun from_fields :: "field_descriptor list \<Rightarrow> error + sample_field_document list" where
  "from_fields [] = Inr []"
| "from_fields (field # rest) =
     (if field_name field \<noteq> ''id''
      then bind_result (from_field field) (\<lambda>p. bind_result (from_fields rest) (\<lambda>ps. Inr (p # ps)))
      else from_fields rest)"

definition list_from_field_schema :: "field_schema \<Rightarrow> error + sample_field_document list" where
  "list_from_field_schema d = from_fields (values_of d)"

section \<open>DatasetDocument\<close>

text \<open>
  The contents of a \<open>DictField\<close>: values the document store can hold.
\<close>

datatype val = VNull | VBool bool | VInt int | VStr string
  | VList "val list" | VDict "(string \<times> val) list"

text \<open>
  \<^verbatim>\<open>
  class DatasetDocument(Document):
      meta = {"collection": "datasets"}
      media_type = StringField()
      name = StringField(unique=True, required=True)
      sample_collection_name = StringField(unique=True, required=True)
      persistent = BooleanField(default=False)
      info = DictField(default=dict)
      sample_fields = EmbeddedDocumentListField(document_type=SampleFieldDocument)
      default_targets = TargetsField(null=True)
      field_targets = DictField(default=dict, field=TargetsField(default=dict))
      frame_fields = EmbeddedDocumentListField(document_type=SampleFieldDocument)
      version = StringField(required=True, null=True)
  \<close>
  A targets mapping sends integer class ids to label strings. The field \<open>name\<close> is
  \<open>ds_name\<close> here, \<open>name\<close> being the selector of \<open>sample_field_document\<close>.
\<close>

type_synonym targets = "(int \<times> string) list"

record dataset_document =
  media_type :: "string option"
  ds_name :: string
  sample_collection_name :: string
  persistent :: bool
  info :: "(string \<times> val) list"
  sample_fields :: "sample_field_document list"
  default_targets :: "targets option"
  field_targets :: "(string \<times> targets) list"
  frame_fields :: "sample_field_document list"
  version :: "string option"

text \<open>The fields the class declares with \<open>unique=True\<close>.\<close>

definition unique_fields :: "(dataset_document \<Rightarrow> string) list" where
  "unique_fields = [ds_name, sample_collection_name]"

text \<open>
  Modelled from the spec: the document store and the inherited create operation of
  \<open>Document\<close> (\<open>fiftyone/core/odm/document.py\<close> and the database driver are not
  part of the sources at hand). The spec: the store provides atomic single-document
  create and enforces the declared uniqueness constraints; a violation is surfaced by
  the store as a creation failure; this layer does not pre-check or retry.

  The store is the \<open>datasets\<close> collection, in insertion order, together with the
  requests it has received, so that what the layer asks of the store can be stated.
\<close>

datatype store_error = NotUniqueError

datatype request = Find string | Insert dataset_document

record store =
  persisted :: "dataset_document list"
  requests :: "request list"

text \<open>
  Modelled from the spec: two documents collide when they agree on a field declared
  unique (the uniqueness check itself is the store's and is not in the sources at hand).
\<close>

definition collides :: "dataset_document \<Rightarrow> dataset_document \<Rightarrow> bool" where
  "collides d d' = list_ex (\<lambda>k. k d' = k d) unique_fields"

text \<open>
  Modelled from the spec: the store's atomic single-document create (not in the sources
  at hand). It rejects a document that collides with a persisted one and leaves the
  collection as it was; otherwise it appends the document.
\<close>

definition store_insert :: "store \<Rightarrow> dataset_document \<Rightarrow> (store_error + unit) \<times> store" where
  "store_insert st d =
     (if list_ex (collides d) (persisted st)
      then (Inl NotUniqueError, st\<lparr>requests := requests st @ [Insert d]\<rparr>)
      else (Inr (), st\<lparr>persisted := persisted st @ [d],
                      requests := requests st @ [Insert d]\<rparr>))"

text \<open>
  Modelled from the spec: the create operation \<open>DatasetDocument\<close> inherits from
  \<open>Document\<close> (not in the sources at hand). It hands the document to the store and
  surfaces the store's answer.
\<close>

definition create :: "store \<Rightarrow> dataset_document \<Rightarrow> (store_error + unit) \<times> store" where
  "create st d = store_insert st d"

text \<open>
  Modelled from the spec: a run of create attempts, whatever each one answers (the
  callers of create are not in the sources at hand).
\<close>

fun create_all :: "store \<Rightarrow> dataset_document list \<Rightarrow> store" where
  "create_all st [] = st"
| "create_all st (d # ds) = create_all (snd (create st d)) ds"

section \<open>EvaluationDocument\<close>

text \<open>
  \<^verbatim>\<open>
  class EvaluationDocument(EmbeddedDocument):
      name = StringField()
      gt_field = StringField()
      pred_field = StringField()
      config = DictField()
      view = ListField(DictField())
  \<close>
  The field \<open>name\<close> is \<open>ev_name\<close> here.
\<close>

record evaluation_document =
  ev_name :: string
  gt_field :: string
  pred_field :: string
  config :: "(string \<times> val) list"
  view :: "(string \<times> val) list list"

text \<open>
  Modelled from the spec: serialization of an embedded document (the
  \<open>EmbeddedDocument\<close> base class of \<open>fiftyone/core/odm/document.py\<close> and the
  object-document mapper are not part of the sources at hand). The spec: the persisted
  form is a mapping from the declared field names to stored values, and \<open>view\<close> is
  stored as an ordered sequence of mappings, one per pipeline stage.
\<close>

definition to_mongo :: "evaluation_document \<Rightarrow> (string \<times> val) list" where
  "to_mongo doc =
     [(''name'', VStr (ev_name doc)),
      (''gt_field'', VStr (gt_field doc)),
      (''pred_field'', VStr (pred_field doc)),
      (''config'', VDict (config doc)),
      (''view'', VList (map VDict (view doc)))]"

text \<open>
  Modelled from the spec: reading a stored sequence back as stage mappings (not in the
  sources at hand); an element that is not a mapping makes the read fail.
\<close>

fun stages_of :: "val list \<Rightarrow> (string \<times> val) list list option" where
  "stages_of [] = Some []"
| "stages_of (VDict kvs # rest) = map_option ((#) kvs) (stages_of rest)"
| "stages_of (v # rest) = None"

text \<open>
  Modelled from the spec: deserialization of an embedded document from its persisted
  form (not in the sources at hand): each declared field is read back by name.
\<close>

definition from_mongo :: "(string \<times> val) list \<Rightarrow> evaluation_document option" where
  "from_mongo son =
     (case (map_of son ''name'', map_of son ''gt_field'', map_of son ''pred_field'',
            map_of son ''config'', map_of son ''view'') of
        (Some (VStr n), Some (VStr g), Some (VStr p), Some (VDict c), Some (VList vs)) \<Rightarrow>
          map_option (\<lambda>v. \<lparr>ev_name = n, gt_field = g, pred_field = p, config = c, view = v\<rparr>)
                     (stages_of vs)
      | _ \<Rightarrow> None)"


section \<open>Example values\<close>

text \<open>
  \<open>ListField(StringField())\<close> and \<open>ListField(IntField())\<close> named \<open>tags\<close>, in the
  field classes of \<open>fiftyone.core.fields\<close>.
\<close>

definition tags_of_strings :: field_descriptor where
  "tags_of_strings =
     \<lparr>field_name = ''tags'', class_name = ''fiftyone.core.fields.ListField'',
      field_attrs = [''field'' \<mapsto> PyObj ''fiftyone.core.fields.StringField'' True]\<rparr>"

definition tags_of_ints :: field_descriptor where
  "tags_of_ints =
     \<lparr>field_name = ''tags'', class_name = ''fiftyone.core.fields.ListField'',
      field_attrs = [''field'' \<mapsto> PyObj ''fiftyone.core.fields.IntField'' True]\<rparr>"

text \<open>A list field whose \<open>field\<close> attribute is there and is \<open>None\<close>.\<close>

definition tags_bare :: field_descriptor where
  "tags_bare =
     \<lparr>field_name = ''tags'', class_name = ''fiftyone.core.fields.ListField'',
      field_attrs = [''field'' \<mapsto> PyNone]\<rparr>"

text \<open>A field of the same name and class with no \<open>field\<close> attribute at all.\<close>

definition tags_plain :: field_descriptor where
  "tags_plain =
     \<lparr>field_name = ''tags'', class_name = ''fiftyone.core.fields.ListField'',
      field_attrs = Map.empty\<rparr>"

text \<open>
  An embedded-document field whose \<open>document_type\<close> is there and is \<open>None\<close>, and
  one whose document type is the \<open>Detections\<close> label class.
\<close>

definition predictions_bare :: field_descriptor where
  "predictions_bare =
     \<lparr>field_name = ''predictions'',
      class_name = ''fiftyone.core.fields.EmbeddedDocumentField'',
      field_attrs = [''document_type'' \<mapsto> PyNone]\<rparr>"

definition predictions_field :: field_descriptor where
  "predictions_field =
     \<lparr>field_name = ''predictions'',
      class_name = ''fiftyone.core.fields.EmbeddedDocumentField'',
      field_attrs = [''document_type'' \<mapsto> PyObj ''fiftyone.core.labels.Detections'' True]\<rparr>"

definition filepath_field :: field_descriptor where
  "filepath_field =
     \<lparr>field_name = ''filepath'', class_name = ''fiftyone.core.fields.StringField'',
      field_attrs = Map.empty\<rparr>"

definition id_field :: field_descriptor where
  "id_field =
     \<lparr>field_name = ''id'', class_name = ''fiftyone.core.fields.ObjectIdField'',
      field_attrs = Map.empty\<rparr>"

text \<open>Projections of a list field named \<open>tags\<close>, without and with a subfield.\<close>

definition tags_doc :: sample_field_document where
  "tags_doc =
     \<lparr>name = ''tags'', ftype = ''fiftyone.core.fields.ListField'',
      subfield = None, embedded_doc_type = None\<rparr>"

definition tags_of_strings_doc :: sample_field_document where
  "tags_of_strings_doc =
     \<lparr>name = ''tags'', ftype = ''fiftyone.core.fields.ListField'',
      subfield = Some ''fiftyone.core.fields.StringField'', embedded_doc_type = None\<rparr>"

definition filepath_doc :: sample_field_document where
  "filepath_doc =
     \<lparr>name = ''filepath'', ftype = ''fiftyone.core.fields.StringField'',
      subfield = None, embedded_doc_type = None\<rparr>"

definition predictions_doc :: sample_field_document where
  "predictions_doc =
     \<lparr>name = ''predictions'', ftype = ''fiftyone.core.fields.EmbeddedDocumentField'',
      subfield = None, embedded_doc_type = Some ''fiftyone.core.labels.Detections''\<rparr>"

text \<open>Two dataset documents of the same name, a third of another name, and a store.\<close>

definition quickstart :: dataset_document where
  "quickstart =
     \<lparr>media_type = Some ''image'', ds_name = ''quickstart'',
      sample_collection_name = ''samples.1'', persistent = False, info = [],
      sample_fields = [filepath_doc, tags_of_strings_doc], default_targets = None,
      field_targets = [], frame_fields = [], version = Some ''0.7.2''\<rparr>"

definition quickstart_again :: dataset_document where
  "quickstart_again =
     \<lparr>media_type = Some ''video'', ds_name = ''quickstart'',
      sample_collection_name = ''samples.2'', persistent = True, info = [],
      sample_fields = [filepath_doc], default_targets = None,
      field_targets = [], frame_fields = [], version = Some ''0.7.2''\<rparr>"

definition cifar :: dataset_document where
  "cifar =
     \<lparr>media_type = Some ''image'', ds_name = ''cifar10'',
      sample_collection_name = ''samples.3'', persistent = True, info = [],
      sample_fields = [filepath_doc], default_targets = Some [(0, ''airplane'')],
      field_targets = [], frame_fields = [], version = None\<rparr>"

definition empty_store :: store where
  "empty_store = \<lparr>persisted = [], requests = []\<rparr>"

text \<open>An evaluation whose view has two stages.\<close>

definition eval_doc :: evaluation_document where
  "eval_doc =
     \<lparr>ev_name = ''eval'', gt_field = ''ground_truth'', pred_field = ''predictions'',
      config = [(''iou'', VInt 1)],
      view = [[(''_cls'', VStr ''fiftyone.core.stages.Exists''),
               (''kwargs'', VList [VStr ''predictions''])],
              [(''_cls'', VStr ''fiftyone.core.stages.Limit''),
               (''kwargs'', VList [VInt 10])]]\<rparr>"

text \<open>
  Field schemas: one with an \<open>id\<close> entry, one without, and one whose keys are not the
  names of its fields.
\<close>

definition schema_with_id :: field_schema where
  "schema_with_id =
     [(''id'', id_field), (''filepath'', filepath_field), (''tags'', tags_of_strings)]"

definition schema_without_id :: field_schema where
  "schema_without_id = [(''filepath'', filepath_field), (''tags'', tags_of_strings)]"

definition schema_crossed :: field_schema where
  "schema_crossed = [(''id'', filepath_field), (''uid'', id_field)]"

section \<open>Construction never raises\<close>

lemma get_attr_repr_cases:
  "get_attr_repr f a =
     (case field_attrs f a of
        Some (PyObj c True) \<Rightarrow> Inr (Some c)
      | _ \<Rightarrow> Inr None)"
  by (simp add: get_attr_repr_def getattr_default_def split: option.splits pyobj.splits)

lemma from_field_total:
  "from_field f =
     Inr \<lparr>name = field_name f, ftype = class_name f,
          subfield = (case field_attrs f ''field'' of Some (PyObj c True) \<Rightarrow> Some c | _ \<Rightarrow> None),
          embedded_doc_type =
            (case field_attrs f ''document_type'' of Some (PyObj c True) \<Rightarrow> Some c | _ \<Rightarrow> None)\<rparr>"
  by (simp add: from_field_def get_attr_repr_cases split: option.splits pyobj.splits bool.splits)

text \<open>
  C9: \<open>from_field\<close> always returns a document, also on a descriptor that has neither a
  \<open>field\<close> nor a \<open>document_type\<close> attribute; \<open>subfield\<close> is \<open>None\<close> when the
  descriptor lacks \<open>field\<close> and when \<open>field\<close> is there with a falsy value, and
  \<open>embedded_doc_type\<close> is \<open>None\<close> in the same two cases of \<open>document_type\<close>.
\<close>

theorem from_field_none:
  "\<exists>p. from_field f = Inr p \<and>
       (field_attrs f ''field'' = None \<longrightarrow> subfield p = None) \<and>
       (\<forall>v. field_attrs f ''field'' = Some v \<and> \<not> truthy v \<longrightarrow> subfield p = None) \<and>
       (field_attrs f ''document_type'' = None \<longrightarrow> embedded_doc_type p = None) \<and>
       (\<forall>v. field_attrs f ''document_type'' = Some v \<and> \<not> truthy v
            \<longrightarrow> embedded_doc_type p = None)"
  by (auto simp: from_field_total split: pyobj.splits bool.splits)

theorem from_field_none_witness:
  "field_attrs tags_bare ''field'' = Some PyNone \<and> \<not> truthy PyNone \<and>
   field_attrs tags_bare ''document_type'' = None \<and>
   (\<exists>p. from_field tags_bare = Inr p \<and> subfield p = None \<and> embedded_doc_type p = None) \<and>
   field_attrs predictions_bare ''field'' = None \<and>
   field_attrs predictions_bare ''document_type'' = Some PyNone \<and>
   (\<exists>p. from_field predictions_bare = Inr p \<and> subfield p = None \<and>
        embedded_doc_type p = None)"
  using from_field_none [of tags_bare] from_field_none [of predictions_bare]
  by (auto simp: tags_bare_def predictions_bare_def)

section \<open>Matching\<close>

lemma set_and_differs_falsy: "\<not> str_truthy s \<Longrightarrow> set_and_differs s f a = Inr False"
  by (simp add: set_and_differs_def)

lemma set_and_differs_empty:
  "set_and_differs (Some []) f a = Inr False" "set_and_differs None f a = Inr False"
  by (simp_all add: set_and_differs_def)

lemma set_and_differs_object:
  "field_attrs f a = Some (PyObj c t) \<Longrightarrow>
   set_and_differs s f a = Inr (str_truthy s \<and> s \<noteq> Some c)"
  by (simp add: set_and_differs_def getattr_def)

lemma set_and_differs_repr:
  "set_and_differs (case field_attrs f a of Some (PyObj c True) \<Rightarrow> Some c | _ \<Rightarrow> None) f a
     = Inr False"
  by (simp add: set_and_differs_def getattr_def split: option.splits pyobj.splits bool.splits)

lemma set_and_differs_other:
  "a \<noteq> b \<Longrightarrow>
   set_and_differs s (f\<lparr>field_attrs := (field_attrs f)(a := x)\<rparr>) b = set_and_differs s f b"
  by (simp add: set_and_differs_def getattr_def)

text \<open>
  C1: for every field descriptor \<open>f\<close>, \<open>from_field(f)\<close> returns a document and
  \<open>matches_field(f)\<close> on that document returns \<open>True\<close>.
\<close>

theorem from_field_matches_field:
  "bind_result (from_field f) (\<lambda>p. matches_field p f) = Inr True"
  by (simp add: from_field_total matches_field_def set_and_differs_repr)

theorem from_field_matches_field_witness:
  "from_field predictions_field = Inr predictions_doc \<and>
   matches_field predictions_doc predictions_field = Inr True"
  using from_field_matches_field [of predictions_field]
  by (simp add: from_field_total predictions_field_def predictions_doc_def)

text \<open>
  C4: when the descriptor's name and class name equal the projection's \<open>name\<close> and
  \<open>ftype\<close>, and the projection's \<open>subfield\<close> and \<open>embedded_doc_type\<close> are
  absent, \<open>matches_field\<close> returns \<open>True\<close>, whatever the descriptor's nested field
  and document type are.
\<close>

theorem matches_field_widening:
  "name p = field_name f \<Longrightarrow> ftype p = class_name f \<Longrightarrow>
   subfield p = None \<Longrightarrow> embedded_doc_type p = None \<Longrightarrow>
   matches_field p f = Inr True"
  by (simp add: matches_field_def set_and_differs_def)

theorem matches_field_widening_witness:
  "name tags_doc = field_name tags_of_strings \<and> ftype tags_doc = class_name tags_of_strings \<and>
   name tags_doc = field_name tags_of_ints \<and> ftype tags_doc = class_name tags_of_ints \<and>
   subfield tags_doc = None \<and> embedded_doc_type tags_doc = None \<and>
   matches_field tags_doc tags_of_strings = Inr True \<and>
   matches_field tags_doc tags_of_ints = Inr True"
proof -
  have h: "name tags_doc = field_name tags_of_strings" "ftype tags_doc = class_name tags_of_strings"
    "name tags_doc = field_name tags_of_ints" "ftype tags_doc = class_name tags_of_ints"
    "subfield tags_doc = None" "embedded_doc_type tags_doc = None"
    by (simp_all add: tags_doc_def tags_of_strings_def tags_of_ints_def)
  from h matches_field_widening [OF h(1) h(2) h(5) h(6)]
    matches_field_widening [OF h(3) h(4) h(5) h(6)]
  show ?thesis by simp
qed

text \<open>
  C5: when the descriptor has a nested field and the projection's \<open>subfield\<close> is set
  (a non-empty string) and differs from the class name of that nested field,
  \<open>matches_field\<close> returns \<open>False\<close>, whether or not name and \<open>ftype\<close> match.
\<close>

theorem matches_field_subfield_differs:
  "str_truthy (subfield p) \<Longrightarrow> field_attrs f ''field'' = Some (PyObj c t) \<Longrightarrow>
   subfield p \<noteq> Some c \<Longrightarrow> matches_field p f = Inr False"
  by (simp add: matches_field_def set_and_differs_object)

theorem matches_field_subfield_differs_witness:
  "str_truthy (subfield tags_of_strings_doc) \<and>
   field_attrs tags_of_ints ''field'' = Some (PyObj ''fiftyone.core.fields.IntField'' True) \<and>
   subfield tags_of_strings_doc \<noteq> Some ''fiftyone.core.fields.IntField'' \<and>
   name tags_of_strings_doc = field_name tags_of_ints \<and>
   ftype tags_of_strings_doc = class_name tags_of_ints \<and>
   matches_field tags_of_strings_doc tags_of_ints = Inr False"
proof -
  have h: "str_truthy (subfield tags_of_strings_doc)"
    "field_attrs tags_of_ints ''field'' = Some (PyObj ''fiftyone.core.fields.IntField'' True)"
    "subfield tags_of_strings_doc \<noteq> Some ''fiftyone.core.fields.IntField''"
    by (simp_all add: tags_of_strings_doc_def tags_of_ints_def)
  have "name tags_of_strings_doc = field_name tags_of_ints"
    "ftype tags_of_strings_doc = class_name tags_of_ints"
    by (simp_all add: tags_of_strings_doc_def tags_of_ints_def)
  with h matches_field_subfield_differs [OF h] show ?thesis by simp
qed

text \<open>
  C8: a projection whose \<open>subfield\<close> is the empty string gives, on every descriptor,
  the result of the same projection with \<open>subfield\<close> absent, and likewise for
  \<open>embedded_doc_type\<close>: the guards test truthiness.
\<close>

theorem matches_field_empty_string:
  "matches_field (p\<lparr>subfield := Some ''''\<rparr>) f = matches_field (p\<lparr>subfield := None\<rparr>) f \<and>
   matches_field (p\<lparr>embedded_doc_type := Some ''''\<rparr>) f
     = matches_field (p\<lparr>embedded_doc_type := None\<rparr>) f"
  by (simp add: matches_field_def set_and_differs_empty cong del: if_weak_cong)

theorem matches_field_empty_string_witness:
  "matches_field (tags_doc\<lparr>subfield := Some ''''\<rparr>) tags_plain = Inr True \<and>
   matches_field (tags_doc\<lparr>subfield := None\<rparr>) tags_plain = Inr True \<and>
   matches_field (tags_doc\<lparr>embedded_doc_type := Some ''''\<rparr>) tags_plain = Inr True \<and>
   matches_field (tags_doc\<lparr>embedded_doc_type := None\<rparr>) tags_plain = Inr True"
proof -
  have "matches_field tags_doc tags_plain = Inr True"
    by (simp add: matches_field_def set_and_differs_def tags_doc_def tags_plain_def)
  moreover have "tags_doc\<lparr>subfield := None\<rparr> = tags_doc"
    "tags_doc\<lparr>embedded_doc_type := None\<rparr> = tags_doc"
    by (simp_all add: tags_doc_def)
  ultimately show ?thesis
    using matches_field_empty_string [of tags_doc tags_plain] by simp
qed

text \<open>
  C2, as the code has it: \<open>matches_field\<close> returns a boolean whenever the descriptor
  has a nested field object if the projection's \<open>subfield\<close> is set, and a document
  type object if the projection's \<open>embedded_doc_type\<close> is set. When the projection's
  \<open>subfield\<close> is absent the result does not depend on the descriptor's \<open>field\<close>
  attribute (there or not, whatever its value), and likewise for
  \<open>embedded_doc_type\<close> and \<open>document_type\<close>; with both absent the result is
  \<open>True\<close> exactly when name and \<open>ftype\<close> agree.
\<close>

theorem matches_field_returns:
  "((str_truthy (subfield p) \<longrightarrow> (\<exists>c t. field_attrs f ''field'' = Some (PyObj c t))) \<and>
    (str_truthy (embedded_doc_type p) \<longrightarrow>
       (\<exists>c t. field_attrs f ''document_type'' = Some (PyObj c t)))
      \<longrightarrow> (\<exists>b. matches_field p f = Inr b)) \<and>
   (subfield p = None \<longrightarrow>
      matches_field p (f\<lparr>field_attrs := (field_attrs f)(''field'' := x)\<rparr>) = matches_field p f) \<and>
   (embedded_doc_type p = None \<longrightarrow>
      matches_field p (f\<lparr>field_attrs := (field_attrs f)(''document_type'' := y)\<rparr>)
        = matches_field p f) \<and>
   (subfield p = None \<and> embedded_doc_type p = None \<longrightarrow>
      matches_field p f = Inr (name p = field_name f \<and> ftype p = class_name f))"
proof (intro conjI impI)
  assume h: "(str_truthy (subfield p) \<longrightarrow> (\<exists>c t. field_attrs f ''field'' = Some (PyObj c t))) \<and>
    (str_truthy (embedded_doc_type p) \<longrightarrow>
       (\<exists>c t. field_attrs f ''document_type'' = Some (PyObj c t)))"
  have 1: "\<exists>b. set_and_differs (subfield p) f ''field'' = Inr b"
  proof (cases "str_truthy (subfield p)")
    case True
    with h show ?thesis by (auto simp: set_and_differs_object)
  next
    case False
    from set_and_differs_falsy [OF this] show ?thesis by blast
  qed
  have 2: "\<exists>b. set_and_differs (embedded_doc_type p) f ''document_type'' = Inr b"
  proof (cases "str_truthy (embedded_doc_type p)")
    case True
    with h show ?thesis by (auto simp: set_and_differs_object)
  next
    case False
    from set_and_differs_falsy [OF this] show ?thesis by blast
  qed
  from 1 2 show "\<exists>b. matches_field p f = Inr b"
    by (auto simp: matches_field_def)
next
  assume "subfield p = None"
  then show "matches_field p (f\<lparr>field_attrs := (field_attrs f)(''field'' := x)\<rparr>)
               = matches_field p f"
    by (simp add: matches_field_def set_and_differs_empty set_and_differs_other
          cong del: if_weak_cong)
next
  assume "embedded_doc_type p = None"
  then show "matches_field p (f\<lparr>field_attrs := (field_attrs f)(''document_type'' := y)\<rparr>)
               = matches_field p f"
    by (simp add: matches_field_def set_and_differs_empty set_and_differs_other
          cong del: if_weak_cong)
next
  assume "subfield p = None \<and> embedded_doc_type p = None"
  then show "matches_field p f = Inr (name p = field_name f \<and> ftype p = class_name f)"
    by (simp add: matches_field_def set_and_differs_def)
qed

theorem matches_field_returns_witness:
  "str_truthy (subfield tags_of_strings_doc) \<and>
   field_attrs tags_of_strings ''field'' = Some (PyObj ''fiftyone.core.fields.StringField'' True) \<and>
   \<not> str_truthy (embedded_doc_type tags_of_strings_doc) \<and>
   (\<exists>b. matches_field tags_of_strings_doc tags_of_strings = Inr b) \<and>
   subfield tags_doc = None \<and> embedded_doc_type tags_doc = None \<and>
   matches_field tags_doc (tags_of_strings\<lparr>field_attrs := (field_attrs tags_of_strings)(''field'' := None)\<rparr>)
     = matches_field tags_doc tags_of_strings \<and>
   matches_field tags_doc tags_of_strings = Inr True"
proof -
  have h: "str_truthy (subfield tags_of_strings_doc)"
    "field_attrs tags_of_strings ''field'' = Some (PyObj ''fiftyone.core.fields.StringField'' True)"
    "\<not> str_truthy (embedded_doc_type tags_of_strings_doc)"
    by (simp_all add: tags_of_strings_doc_def tags_of_strings_def)
  have g: "subfield tags_doc = None" "embedded_doc_type tags_doc = None"
    "name tags_doc = field_name tags_of_strings" "ftype tags_doc = class_name tags_of_strings"
    by (simp_all add: tags_doc_def tags_of_strings_def)
  from h matches_field_returns [of tags_of_strings_doc tags_of_strings]
  have "\<exists>b. matches_field tags_of_strings_doc tags_of_strings = Inr b" by blast
  with h g matches_field_returns [of tags_doc tags_of_strings None]
  show ?thesis by simp
qed

text \<open>
  The claim C2 as it is stated fails: with \<open>subfield\<close> set, name and \<open>ftype\<close>
  matching, and a descriptor that has no \<open>field\<close> attribute, reading
  \<open>field.field\<close> raises.
\<close>

theorem matches_field_raises:
  "matches_field tags_of_strings_doc tags_plain = Inl AttributeError"
  by (simp add: matches_field_def set_and_differs_def getattr_def
        tags_of_strings_doc_def tags_plain_def)

section \<open>Projecting a schema\<close>

lemma from_fields_total:
  "\<exists>ps. from_fields fs = Inr ps \<and>
        map Inr ps = map from_field (filter (\<lambda>f. field_name f \<noteq> ''id'') fs) \<and>
        map name ps = filter (\<lambda>n. n \<noteq> ''id'') (map field_name fs)"
proof (induction fs)
  case Nil
  show ?case by simp
next
  case (Cons f fs)
  then obtain ps where ps: "from_fields fs = Inr ps"
    "map Inr ps = map from_field (filter (\<lambda>f. field_name f \<noteq> ''id'') fs)"
    "map name ps = filter (\<lambda>n. n \<noteq> ''id'') (map field_name fs)" by blast
  obtain p where p: "from_field f = Inr p" "name p = field_name f"
    by (simp add: from_field_total)
  show ?case by (simp add: ps p)
qed

lemma from_fields_append:
  "from_fields xs = Inr ps \<Longrightarrow> from_fields ys = Inr qs \<Longrightarrow> from_fields (xs @ ys) = Inr (ps @ qs)"
proof (induction xs arbitrary: ps)
  case Nil
  then show ?case by simp
next
  case (Cons f fs)
  obtain p where p: "from_field f = Inr p" by (simp add: from_field_total)
  obtain ps' where ps': "from_fields fs = Inr ps'" using from_fields_total by blast
  from Cons.IH [OF ps' Cons.prems(2)] Cons.prems(1) show ?case
    by (simp add: p ps' split: if_splits)
qed

text \<open>
  C3: \<open>list_from_field_schema(d)\<close> returns a list; its elements are, in the iteration
  order of \<open>d\<close>, the \<open>from_field\<close> projections of exactly the values of \<open>d\<close> whose
  name is not \<open>"id"\<close>, so the names of the output are the names of the input with
  \<open>"id"\<close> removed and the rest in place; when no value is named \<open>"id"\<close> nothing is
  left out.
\<close>

theorem list_from_field_schema_order:
  "\<exists>ps. list_from_field_schema d = Inr ps \<and>
        map Inr ps = map from_field (filter (\<lambda>f. field_name f \<noteq> ''id'') (values_of d)) \<and>
        map name ps = filter (\<lambda>n. n \<noteq> ''id'') (map field_name (values_of d)) \<and>
        ((\<forall>f \<in> set (values_of d). field_name f \<noteq> ''id'') \<longrightarrow> length ps = length d)"
proof -
  obtain ps where ps: "from_fields (values_of d) = Inr ps"
    "map Inr ps = map from_field (filter (\<lambda>f. field_name f \<noteq> ''id'') (values_of d))"
    "map name ps = filter (\<lambda>n. n \<noteq> ''id'') (map field_name (values_of d))"
    using from_fields_total by blast
  have len: "(\<forall>f \<in> set (values_of d). field_name f \<noteq> ''id'') \<longrightarrow> length ps = length d"
  proof
    assume a: "\<forall>f \<in> set (values_of d). field_name f \<noteq> ''id''"
    then have "filter (\<lambda>n. n \<noteq> ''id'') (map field_name (values_of d))
                 = map field_name (values_of d)"
      by (simp add: filter_map)
    with ps(3) have "length (map name ps) = length (map field_name (values_of d))"
      by simp
    then show "length ps = length d" by (simp add: values_of_def)
  qed
  show ?thesis using ps len by (simp add: list_from_field_schema_def)
qed

theorem list_from_field_schema_order_witness:
  "list_from_field_schema schema_with_id = Inr [filepath_doc, tags_of_strings_doc] \<and>
   map field_name (values_of schema_with_id) = [''id'', ''filepath'', ''tags''] \<and>
   map field_name (values_of schema_without_id) = [''filepath'', ''tags''] \<and>
   (\<exists>ps. list_from_field_schema schema_without_id = Inr ps \<and>
         map name ps = [''filepath'', ''tags''] \<and> length ps = length schema_without_id)"
proof -
  have 1: "map field_name (values_of schema_with_id) = [''id'', ''filepath'', ''tags'']"
    by (simp add: schema_with_id_def values_of_def id_field_def filepath_field_def
          tags_of_strings_def)
  have 2: "map field_name (values_of schema_without_id) = [''filepath'', ''tags'']"
    by (simp add: schema_without_id_def values_of_def filepath_field_def tags_of_strings_def)
  have 3: "filter (\<lambda>f. field_name f \<noteq> ''id'') (values_of schema_with_id)
             = [filepath_field, tags_of_strings]"
    by (simp add: schema_with_id_def values_of_def id_field_def filepath_field_def
          tags_of_strings_def)
  have 4: "from_field filepath_field = Inr filepath_doc"
    "from_field tags_of_strings = Inr tags_of_strings_doc"
    by (simp_all add: from_field_total filepath_field_def filepath_doc_def
          tags_of_strings_def tags_of_strings_doc_def)
  from list_from_field_schema_order [of schema_with_id]
  have a: "list_from_field_schema schema_with_id = Inr [filepath_doc, tags_of_strings_doc]"
    by (auto simp: 3 4)
  have "\<forall>f \<in> set (values_of schema_without_id). field_name f \<noteq> ''id''"
    by (simp add: schema_without_id_def values_of_def filepath_field_def tags_of_strings_def)
  with list_from_field_schema_order [of schema_without_id]
  have b: "\<exists>ps. list_from_field_schema schema_without_id = Inr ps \<and>
         map name ps = [''filepath'', ''tags''] \<and> length ps = length schema_without_id"
    by (auto simp: 2)
  from a 1 2 b show ?thesis by simp
qed

text \<open>
  C10: \<open>list_from_field_schema\<close> looks at the \<open>name\<close> attribute of each value and
  never at the key: a value stored under the key \<open>"id"\<close> whose name is not \<open>"id"\<close>
  is projected, in its place; a value whose name is \<open>"id"\<close> is left out under any
  key; and two mappings with the same values in the same order give the same list.
\<close>

theorem list_from_field_schema_by_name:
  "(field_name f \<noteq> ''id'' \<longrightarrow>
      (\<exists>ps p qs. list_from_field_schema xs = Inr ps \<and> from_field f = Inr p \<and>
                 list_from_field_schema ys = Inr qs \<and>
                 list_from_field_schema (xs @ (''id'', f) # ys) = Inr (ps @ p # qs))) \<and>
   (field_name f = ''id'' \<longrightarrow>
      list_from_field_schema (xs @ (k, f) # ys) = list_from_field_schema (xs @ ys)) \<and>
   (map snd d = map snd d' \<longrightarrow> list_from_field_schema d = list_from_field_schema d')"
proof (intro conjI impI)
  assume n: "field_name f \<noteq> ''id''"
  obtain ps where ps: "from_fields (values_of xs) = Inr ps" using from_fields_total by blast
  obtain qs where qs: "from_fields (values_of ys) = Inr qs" using from_fields_total by blast
  obtain p where p: "from_field f = Inr p" by (simp add: from_field_total)
  have "from_fields (f # values_of ys) = Inr (p # qs)" using n by (simp add: p qs)
  from from_fields_append [OF ps this]
  have "list_from_field_schema (xs @ (''id'', f) # ys) = Inr (ps @ p # qs)"
    by (simp add: list_from_field_schema_def values_of_def)
  with ps qs p
  show "\<exists>ps p qs. list_from_field_schema xs = Inr ps \<and> from_field f = Inr p \<and>
                 list_from_field_schema ys = Inr qs \<and>
                 list_from_field_schema (xs @ (''id'', f) # ys) = Inr (ps @ p # qs)"
    by (simp add: list_from_field_schema_def)
next
  assume i: "field_name f = ''id''"
  obtain ps where ps: "from_fields (values_of xs) = Inr ps" using from_fields_total by blast
  obtain qs where qs: "from_fields (values_of ys) = Inr qs" using from_fields_total by blast
  have "from_fields (f # values_of ys) = Inr qs" using i by (simp add: qs)
  from from_fields_append [OF ps this] from_fields_append [OF ps qs]
  show "list_from_field_schema (xs @ (k, f) # ys) = list_from_field_schema (xs @ ys)"
    by (simp add: list_from_field_schema_def values_of_def)
next
  assume "map snd d = map snd d'"
  then show "list_from_field_schema d = list_from_field_schema d'"
    by (simp add: list_from_field_schema_def values_of_def)
qed

theorem list_from_field_schema_by_name_witness:
  "field_name filepath_field \<noteq> ''id'' \<and> field_name id_field = ''id'' \<and>
   schema_crossed = [] @ (''id'', filepath_field) # [(''uid'', id_field)] \<and>
   schema_crossed = [(''id'', filepath_field)] @ (''uid'', id_field) # [] \<and>
   list_from_field_schema schema_crossed = Inr [filepath_doc] \<and>
   map snd schema_crossed = map snd [(''filepath'', filepath_field), (''id'', id_field)] \<and>
   list_from_field_schema [(''filepath'', filepath_field), (''id'', id_field)]
     = Inr [filepath_doc]"
proof -
  have h: "field_name filepath_field \<noteq> ''id''" "field_name id_field = ''id''"
    by (simp_all add: filepath_field_def id_field_def)
  have s: "schema_crossed = [] @ (''id'', filepath_field) # [(''uid'', id_field)]"
    "schema_crossed = [(''id'', filepath_field)] @ (''uid'', id_field) # []"
    "map snd schema_crossed = map snd [(''filepath'', filepath_field), (''id'', id_field)]"
    by (simp_all add: schema_crossed_def)
  have p: "from_field filepath_field = Inr filepath_doc"
    by (simp add: from_field_total filepath_field_def filepath_doc_def)
  have e: "list_from_field_schema [] = Inr []"
    by (simp add: list_from_field_schema_def values_of_def)
  from h(2) list_from_field_schema_by_name
    [where f = id_field and xs = "[(''id'', filepath_field)]" and k = "''uid''" and ys = "[]"]
  have "list_from_field_schema schema_crossed = list_from_field_schema [(''id'', filepath_field)]"
    by (simp add: schema_crossed_def)
  also from h(1) list_from_field_schema_by_name
    [where f = filepath_field and xs = "[]" and ys = "[]"]
  have "list_from_field_schema [(''id'', filepath_field)] = Inr [filepath_doc]"
    by (auto simp: p e)
  finally have a: "list_from_field_schema schema_crossed = Inr [filepath_doc]" .
  from s(3) list_from_field_schema_by_name
    [where d = schema_crossed and d' = "[(''filepath'', filepath_field), (''id'', id_field)]"]
  have "list_from_field_schema [(''filepath'', filepath_field), (''id'', id_field)]
          = list_from_field_schema schema_crossed"
    by simp
  with a h s show ?thesis by simp
qed

section \<open>Creating dataset documents\<close>

lemma create_collision:
  "d' \<in> set (persisted st) \<Longrightarrow> ds_name d' = ds_name d \<Longrightarrow>
   create st d = (Inl NotUniqueError, st\<lparr>requests := requests st @ [Insert d]\<rparr>)"
  by (auto simp: create_def store_insert_def list_ex_iff collides_def unique_fields_def)

lemma create_success:
  "create st d = (Inr (), st') \<Longrightarrow>
   persisted st' = persisted st @ [d] \<and> requests st' = requests st @ [Insert d]"
  by (auto simp: create_def store_insert_def split: if_splits)

lemma create_keeps: "set (persisted st) \<subseteq> set (persisted (snd (create st d)))"
  by (auto simp: create_def store_insert_def)

lemma create_all_keeps: "set (persisted st) \<subseteq> set (persisted (create_all st ds))"
proof (induction ds arbitrary: st)
  case Nil
  show ?case by simp
next
  case (Cons d ds)
  from create_keeps [of st d] Cons.IH [of "snd (create st d)"] show ?case
    by auto
qed

lemma create_distinct:
  "distinct (map ds_name (persisted st)) \<Longrightarrow>
   distinct (map ds_name (persisted (snd (create st d))))"
  by (auto simp: create_def store_insert_def list_ex_iff collides_def unique_fields_def)

lemma create_all_distinct:
  "distinct (map ds_name (persisted st)) \<Longrightarrow>
   distinct (map ds_name (persisted (create_all st ds)))"
  by (induction ds arbitrary: st) (simp_all add: create_distinct)

text \<open>
  C6: of two dataset documents with the same name at most one is persisted. Once the
  first has been created, creating the second fails with the store's uniqueness error,
  also after any number of create attempts in between; the collection is left as it
  was, and the store has received exactly one more request, the insert of the second
  document (no lookup before it, no second insert after it). The names in a collection
  built from the empty store by create attempts are pairwise distinct.
\<close>

theorem create_same_name_fails:
  "ds_name d1 = ds_name d2 \<Longrightarrow> create st d1 = (Inr (), st1) \<Longrightarrow> st2 = create_all st1 ds \<Longrightarrow>
   create st2 d2 = (Inl NotUniqueError, st2\<lparr>requests := requests st2 @ [Insert d2]\<rparr>) \<and>
   persisted (snd (create st2 d2)) = persisted st2 \<and>
   distinct (map ds_name (persisted (create_all empty_store ds)))"
proof -
  assume n: "ds_name d1 = ds_name d2" and c: "create st d1 = (Inr (), st1)"
    and s: "st2 = create_all st1 ds"
  from create_success [OF c] have "d1 \<in> set (persisted st1)" by simp
  with create_all_keeps [of st1 ds] s have "d1 \<in> set (persisted st2)" by blast
  from create_collision [OF this n]
  have f: "create st2 d2 = (Inl NotUniqueError, st2\<lparr>requests := requests st2 @ [Insert d2]\<rparr>)" .
  have "distinct (map ds_name (persisted (create_all empty_store ds)))"
    by (rule create_all_distinct) (simp add: empty_store_def)
  with f show ?thesis by simp
qed

theorem create_same_name_fails_witness:
  "ds_name quickstart = ds_name quickstart_again \<and>
   create empty_store quickstart
     = (Inr (), \<lparr>persisted = [quickstart], requests = [Insert quickstart]\<rparr>) \<and>
   create_all \<lparr>persisted = [quickstart], requests = [Insert quickstart]\<rparr> [cifar]
     = \<lparr>persisted = [quickstart, cifar], requests = [Insert quickstart, Insert cifar]\<rparr> \<and>
   create \<lparr>persisted = [quickstart, cifar], requests = [Insert quickstart, Insert cifar]\<rparr>
       quickstart_again
     = (Inl NotUniqueError,
        \<lparr>persisted = [quickstart, cifar],
         requests = [Insert quickstart, Insert cifar, Insert quickstart_again]\<rparr>)"
proof -
  have n: "ds_name quickstart = ds_name quickstart_again"
    by (simp add: quickstart_def quickstart_again_def)
  have c: "create empty_store quickstart
             = (Inr (), \<lparr>persisted = [quickstart], requests = [Insert quickstart]\<rparr>)"
    by (simp add: create_def store_insert_def empty_store_def)
  have "\<not> collides cifar quickstart"
    by (simp add: collides_def unique_fields_def cifar_def quickstart_def)
  then have a: "\<lparr>persisted = [quickstart, cifar], requests = [Insert quickstart, Insert cifar]\<rparr>
             = create_all \<lparr>persisted = [quickstart], requests = [Insert quickstart]\<rparr> [cifar]"
    by (simp add: create_def store_insert_def)
  from create_same_name_fails [OF n c a]
  have "create \<lparr>persisted = [quickstart, cifar], requests = [Insert quickstart, Insert cifar]\<rparr>
          quickstart_again
        = (Inl NotUniqueError,
           \<lparr>persisted = [quickstart, cifar], requests = [Insert quickstart, Insert cifar]\<rparr>
           \<lparr>requests := requests \<lparr>persisted = [quickstart, cifar],
                                    requests = [Insert quickstart, Insert cifar]\<rparr>
                          @ [Insert quickstart_again]\<rparr>)"
    by (rule conjunct1)
  then have f: "create \<lparr>persisted = [quickstart, cifar],
                        requests = [Insert quickstart, Insert cifar]\<rparr> quickstart_again
        = (Inl NotUniqueError,
           \<lparr>persisted = [quickstart, cifar],
            requests = [Insert quickstart, Insert cifar, Insert quickstart_again]\<rparr>)"
    by simp
  from n c a [symmetric] f show ?thesis by blast
qed

section \<open>Serializing evaluation documents\<close>

lemma stages_of_map: "stages_of (map VDict v) = Some v"
  by (induction v) simp_all

lemma from_mongo_to_mongo: "from_mongo (to_mongo doc) = Some doc"
  by (simp add: from_mongo_def to_mongo_def stages_of_map)

text \<open>
  C7: the persisted form of an evaluation document holds its view as a sequence with
  one mapping per stage, as many as the view has, the \<open>i\<close>-th being the \<open>i\<close>-th
  stage; reading the persisted form back gives the document again, with the same
  view: the same stages in the same order.
\<close>

theorem view_round_trip:
  "from_mongo (to_mongo doc) = Some doc \<and>
   map_option view (from_mongo (to_mongo doc)) = Some (view doc) \<and>
   (\<exists>vs. map_of (to_mongo doc) ''view'' = Some (VList vs) \<and>
         length vs = length (view doc) \<and>
         (\<forall>i < length (view doc). vs ! i = VDict (view doc ! i)) \<and>
         stages_of vs = Some (view doc))"
proof (intro conjI)
  show "from_mongo (to_mongo doc) = Some doc"
    by (rule from_mongo_to_mongo)
  show "map_option view (from_mongo (to_mongo doc)) = Some (view doc)"
    by (simp add: from_mongo_to_mongo)
  have "map_of (to_mongo doc) ''view'' = Some (VList (map VDict (view doc)))"
    by (simp add: to_mongo_def)
  then show "\<exists>vs. map_of (to_mongo doc) ''view'' = Some (VList vs) \<and>
         length vs = length (view doc) \<and>
         (\<forall>i < length (view doc). vs ! i = VDict (view doc ! i)) \<and>
         stages_of vs = Some (view doc)"
    by (simp add: stages_of_map)
qed

theorem view_round_trip_witness:
  "map_of (to_mongo eval_doc) ''view''
     = Some (VList [VDict [(''_cls'', VStr ''fiftyone.core.stages.Exists''),
                           (''kwargs'', VList [VStr ''predictions''])],
                    VDict [(''_cls'', VStr ''fiftyone.core.stages.Limit''),
                           (''kwargs'', VList [VInt 10])]]) \<and>
   from_mongo (to_mongo eval_doc) = Some eval_doc \<and>
   map_option view (from_mongo (to_mongo eval_doc))
     = Some [[(''_cls'', VStr ''fiftyone.core.stages.Exists''),
              (''kwargs'', VList [VStr ''predictions''])],
             [(''_cls'', VStr ''fiftyone.core.stages.Limit''),
              (''kwargs'', VList [VInt 10])]]"
proof -
  have "map_of (to_mongo eval_doc) ''view''
     = Some (VList [VDict [(''_cls'', VStr ''fiftyone.core.stages.Exists''),
                           (''kwargs'', VList [VStr ''predictions''])],
                    VDict [(''_cls'', VStr ''fiftyone.core.stages.Limit''),
                           (''kwargs'', VList [VInt 10])]])"
    by (simp add: to_mongo_def eval_doc_def)
  moreover have "view eval_doc
     = [[(''_cls'', VStr ''fiftyone.core.stages.Exists''),
         (''kwargs'', VList [VStr ''predictions''])],
        [(''_cls'', VStr ''fiftyone.core.stages.Limit''),
         (''kwargs'', VList [VInt 10])]]"
    by (simp add: eval_doc_def)
  ultimately show ?thesis using view_round_trip [of eval_doc] by simp
qed

end
